theory Spec2Isabelle
  imports Main
begin

section \<open>Dates and calendar-day comparison\<close>

text \<open>
  A JavaScript \<open>Date\<close> is observed by the configuration only through its local-time
  getters. The record keeps the getters' names; \<open>getMonth\<close> counts from 0 and
  \<open>getDate\<close> is the day of the month. Both dates that \<open>fetchQuote\<close> compares (the
  \<open>mtime\<close> of an existing file and \<open>new Date()\<close>) are valid dates, so every getter is a
  number.
\<close>

record Date =
  getFullYear :: int
  getMonth :: nat
  getDate :: nat
  getHours :: nat
  getMinutes :: nat
  getSeconds :: nat
  getMilliseconds :: nat

text \<open>\<open>sameDay\<close> of \<open>config.ts\<close> (lines 19-21); \<open>part_000\<close> has the same function.\<close>

definition sameDay :: "Date \<Rightarrow> Date \<Rightarrow> bool" where
  "sameDay date1 date2 \<longleftrightarrow>
     getFullYear date1 = getFullYear date2 \<and> getMonth date1 = getMonth date2
       \<and> getDate date1 = getDate date2"

section \<open>The environment of \<open>fetchQuote\<close>\<close>

text \<open>
  The file at \<open>~/.cache/motd.txt\<close>: its text and its last-modified time. The world holds
  that file when it exists, whether its parent directory \<open>~/.cache\<close> exists, and the number
  of network requests issued so far.
\<close>

record BunFile =
  content :: string
  mtime :: Date

record world =
  cache_file :: "BunFile option"
  cache_dir :: bool
  requests :: nat

text \<open>
  The quotes API's \<open>Response\<close> type is an array of records with the string fields
  \<open>q\<close>, \<open>a\<close>, \<open>i\<close>, \<open>c\<close>, \<open>h\<close>.
\<close>

record quote_record =
  q :: string
  a :: string
  i :: string
  c :: string
  h :: string

type_synonym Response = "quote_record list"

text \<open>
  What \<open>fetch\<close> and \<open>response.json()\<close> can do: \<open>fetch\<close> rejects (a transport error), or
  it resolves to a response with its \<open>ok\<close> flag; \<open>json()\<close> on that response rejects when
  the body is not JSON and otherwise resolves to the parsed data, taken at the type
  \<open>Response\<close> that the source casts it to.
\<close>

datatype body = NotJson | Json Response

record response =
  ok :: bool
  json :: body

datatype fetch_result = Rejects | Resolves response

text \<open>
  One invocation sees one clock value (\<open>new Date()\<close>, also the time stamp a write leaves
  on the file) and one behaviour of the network.
\<close>

record env =
  clock :: Date
  network :: fetch_result

text \<open>
  A JavaScript exception that leaves \<open>fetchQuote\<close> and rejects its promise: the error
  \<open>fetch\<close> rejected with, the \<open>SyntaxError\<close> of \<open>json()\<close>, or the \<open>TypeError\<close> of reading
  a property of \<open>undefined\<close>.
\<close>

datatype js_error = FetchRejected | SyntaxError | TypeError

type_synonym outcome = "(js_error + string option) \<times> world"

text \<open>
  \<open>cacheFile.write(text)\<close>: Bun replaces the whole content of the file, creating the
  file and a missing parent directory.
\<close>

definition cacheFile_write :: "Date \<Rightarrow> string \<Rightarrow> world \<Rightarrow> world" where
  "cacheFile_write t text w = w\<lparr>cache_file := Some \<lparr>content = text, mtime = t\<rparr>, cache_dir := True\<rparr>"

text \<open>
  Lines 64-68 of \<open>config.ts\<close> (54-58 of \<open>part_000\<close>): \<open>data[0]\<close> of an empty array is
  \<open>undefined\<close>, whose property \<open>q\<close> cannot be read; this is outside the \<open>try\<close> block.
\<close>

definition store_quote :: "env \<Rightarrow> Response \<Rightarrow> world \<Rightarrow> outcome" where
  "store_quote e data w =
     (case data of
        [] \<Rightarrow> (Inl TypeError, w)
      | r # _ \<Rightarrow>
          (let quote = q r; author = a r;
               text = quote @ ''\<newline>~ '' @ author
           in (Inr (Some text), cacheFile_write (clock e) text w)))"

text \<open>\<open>oldQuote\<close> of \<open>config.ts\<close> (line 46).\<close>

definition oldQuote :: "world \<Rightarrow> string option" where
  "oldQuote w = (case cache_file w of Some f \<Rightarrow> Some (content f) | None \<Rightarrow> None)"

text \<open>Lines 56-68 of \<open>config.ts\<close>: the request inside \<open>try\<close>/\<open>catch\<close>, then the store.\<close>

definition refresh :: "env \<Rightarrow> world \<Rightarrow> outcome" where
  "refresh e w =
     (let w' = w\<lparr>requests := Suc (requests w)\<rparr> in
      case network e of
        Rejects \<Rightarrow> (Inr (oldQuote w'), w')
      | Resolves response \<Rightarrow>
          if \<not> ok response then (Inr (oldQuote w'), w')
          else (case json response of
                  NotJson \<Rightarrow> (Inr (oldQuote w'), w')
                | Json data \<Rightarrow> store_quote e data w'))"

text \<open>\<open>fetchQuote\<close> of \<open>config.ts\<close> (lines 42-69).\<close>

definition fetchQuote :: "env \<Rightarrow> world \<Rightarrow> outcome" where
  "fetchQuote e w =
     (case cache_file w of
        Some f \<Rightarrow>
          (let modificationTime = mtime f; today = clock e;
               useCachedQuote = sameDay modificationTime today
           in if useCachedQuote then (Inr (Some (content f)), w) else refresh e w)
      | None \<Rightarrow> refresh e w)"

section \<open>The earlier variant, \<open>part_000\<close>\<close>

text \<open>
  Lines 51-58 of \<open>part_000\<close>: no \<open>try\<close>/\<open>catch\<close>, so a rejecting \<open>fetch\<close> or \<open>json()\<close>
  rejects the promise of \<open>fetchQuote\<close>; a response that is not \<open>ok\<close> returns \<open>undefined\<close>.
\<close>

definition refresh_part_000 :: "env \<Rightarrow> world \<Rightarrow> outcome" where
  "refresh_part_000 e w =
     (let w' = w\<lparr>requests := Suc (requests w)\<rparr> in
      case network e of
        Rejects \<Rightarrow> (Inl FetchRejected, w')
      | Resolves response \<Rightarrow>
          if \<not> ok response then (Inr None, w')
          else (case json response of
                  NotJson \<Rightarrow> (Inl SyntaxError, w')
                | Json data \<Rightarrow> store_quote e data w'))"

text \<open>\<open>fetchQuote\<close> of \<open>part_000\<close> (lines 38-59).\<close>

definition fetchQuote_part_000 :: "env \<Rightarrow> world \<Rightarrow> outcome" where
  "fetchQuote_part_000 e w =
     (case cache_file w of
        Some f \<Rightarrow>
          (let modificationTime = mtime f; today = clock e;
               useCachedQuote = sameDay modificationTime today
           in if useCachedQuote then (Inr (Some (content f)), w) else refresh_part_000 e w)
      | None \<Rightarrow> refresh_part_000 e w)"

section \<open>The calendar\<close>

text \<open>
  The year, month and day of a date, and the Gregorian successor of such a day, with the
  month counted from 0 as \<open>getMonth\<close> does. The source has no such function; it is what
  "the next calendar day" means in a statement about \<open>sameDay\<close>.
\<close>

definition calendar_day :: "Date \<Rightarrow> int \<times> nat \<times> nat" where
  "calendar_day d = (getFullYear d, getMonth d, getDate d)"

definition leap_year :: "int \<Rightarrow> bool" where
  "leap_year y \<longleftrightarrow> y mod 4 = 0 \<and> (y mod 100 \<noteq> 0 \<or> y mod 400 = 0)"

definition days_in_month :: "int \<Rightarrow> nat \<Rightarrow> nat" where
  "days_in_month y m =
     (if m = 1 then (if leap_year y then 29 else 28)
      else if m = 3 \<or> m = 5 \<or> m = 8 \<or> m = 10 then 30 else 31)"

definition next_day :: "int \<times> nat \<times> nat \<Rightarrow> int \<times> nat \<times> nat" where
  "next_day ymd =
     (case ymd of (y, m, d) \<Rightarrow>
        if d < days_in_month y m then (y, m, Suc d)
        else if m < 11 then (y, Suc m, 1)
        else (y + 1, 0, 1))"

section \<open>The dashboard\<close>

text \<open>
  \<open>style\<close> of \<open>config.ts\<close> (lines 14-16). \<open>Bun.color\<close> is the runtime's; it is a parameter
  here, giving the escape sequence of a colour or \<open>null\<close>, which \<open>+\<close> turns into the
  text \<open>null\<close>.
\<close>

definition style :: "(string \<Rightarrow> string option) \<Rightarrow> string \<Rightarrow> string \<Rightarrow> string" where
  "style Bun_color color t = (case Bun_color color of None \<Rightarrow> ''null'' | Some esc \<Rightarrow> esc) @ t"

text \<open>The colours of \<open>palette\<close> that the dashboard uses.\<close>

definition palette_red :: string where "palette_red = ''#f38ba8''"
definition palette_peach :: string where "palette_peach = ''#fab387''"
definition palette_yellow :: string where "palette_yellow = ''#f9e2af''"
definition palette_text :: string where "palette_text = ''#cdd6f4''"

text \<open>The icon glyphs, as the UTF-8 bytes of the code points the source writes.\<close>

definition glyph_user :: string where "glyph_user = [CHR 0xEF, CHR 0x90, CHR 0x95]"
definition glyph_system :: string where "glyph_system = [CHR 0xF3, CHR 0xB0, CHR 0x87, CHR 0x85]"
definition glyph_os :: string where "glyph_os = [CHR 0xEE, CHR 0xAF, CHR 0x86]"
definition glyph_machine :: string where "glyph_machine = [CHR 0xEF, CHR 0x92, CHR 0xBC]"
definition glyph_uptime :: string where "glyph_uptime = [CHR 0xF3, CHR 0xB0, CHR 0x94, CHR 0xB5]"
definition glyph_environment :: string where
  "glyph_environment = [CHR 0xF3, CHR 0xB0, CHR 0x8B, CHR 0x9C]"
definition glyph_shell :: string where "glyph_shell = [CHR 0xEE, CHR 0xAF, CHR 0x8A]"
definition glyph_term :: string where "glyph_term = [CHR 0xEE, CHR 0xAA, CHR 0x85]"
definition glyph_editor :: string where "glyph_editor = [CHR 0xEF, CHR 0x81, CHR 0x84]"
definition glyph_browser :: string where "glyph_browser = [CHR 0xF3, CHR 0xB0, CHR 0x88, CHR 0xB9]"
definition glyph_desktop :: string where "glyph_desktop = [CHR 0xF3, CHR 0xB0, CHR 0x8D, CHR 0xB9]"

text \<open>
  A dashboard entry is an object literal with some of the fields \<open>icon\<close>, \<open>text\<close> and
  \<open>divider\<close>; a field the literal does not write is \<open>None\<close>.
\<close>

record entry =
  icon :: "string option"
  line_text :: "string option"
  divider :: "string option"

definition icon_text :: "string \<Rightarrow> string \<Rightarrow> entry" where
  "icon_text ic t = \<lparr>icon = Some ic, line_text = Some t, divider = None\<rparr>"

definition divider_only :: "string \<Rightarrow> entry" where
  "divider_only d = \<lparr>icon = None, line_text = None, divider = Some d\<rparr>"

definition text_only :: "string \<Rightarrow> entry" where
  "text_only t = \<lparr>icon = None, line_text = Some t, divider = None\<rparr>"

text \<open>\<open>String.prototype.split\<close> with a one-character separator, and \<open>Array.prototype.at(-1)\<close>.\<close>

fun split :: "char \<Rightarrow> string \<Rightarrow> string list" where
  "split sep [] = [[]]"
| "split sep (x # xs) =
     (if x = sep then [] # split sep xs
      else (case split sep xs of [] \<Rightarrow> [[x]] | y # ys \<Rightarrow> (x # y) # ys))"

definition at_last :: "'a list \<Rightarrow> 'a option" where
  "at_last xs = (if xs = [] then None else Some (last xs))"

text \<open>Line 93 of \<open>config.ts\<close>: \<open>process.env.SHELL?.split("/")?.at(-1)\<close>.\<close>

definition shell_of :: "string option \<Rightarrow> string option" where
  "shell_of SHELL = (case SHELL of None \<Rightarrow> None | Some p \<Rightarrow> at_last (split CHR ''/'' p))"

text \<open>
  The values the dashboard is built from: the trimmed outputs of \<open>whoami\<close>, \<open>uname -o\<close>,
  \<open>uname -m\<close> and \<open>uptime -p\<close>, the module constants \<open>shell\<close>, \<open>term\<close> (here
  \<open>terminal\<close>), \<open>editor\<close>, \<open>browser\<close>, \<open>desktop\<close>, and \<open>quote\<close>.
\<close>

record facts =
  whoami :: string
  uname_o :: string
  uname_m :: string
  uptime_p :: string
  shell :: "string option"
  terminal :: "string option"
  editor :: "string option"
  browser :: "string option"
  desktop :: "string option"
  quote :: "string option"

text \<open>\<open>config.dashboard\<close> of \<open>config.ts\<close> (lines 109-154).\<close>

definition dashboard :: "(string \<Rightarrow> string option) \<Rightarrow> facts \<Rightarrow> entry list" where
  "dashboard col s =
     [icon_text (style col palette_red glyph_user) (style col palette_text (whoami s)),
      divider_only '' '',
      icon_text (style col palette_peach glyph_system) ''System'',
      icon_text (style col palette_peach glyph_os) (style col palette_text (uname_o s)),
      icon_text (style col palette_peach glyph_machine) (style col palette_text (uname_m s)),
      icon_text (style col palette_peach glyph_uptime) (style col palette_text (uptime_p s)),
      divider_only '' '',
      icon_text (style col palette_yellow glyph_environment) ''Environment'']
     @ (case shell s of None \<Rightarrow> []
        | Some v \<Rightarrow> [icon_text (style col palette_yellow glyph_shell) (style col palette_text v)])
     @ (case terminal s of None \<Rightarrow> []
        | Some v \<Rightarrow> [icon_text (style col palette_yellow glyph_term) (style col palette_text v)])
     @ (case editor s of None \<Rightarrow> []
        | Some v \<Rightarrow> [icon_text (style col palette_yellow glyph_editor) (style col palette_text v)])
     @ (case browser s of None \<Rightarrow> []
        | Some v \<Rightarrow> [icon_text (style col palette_yellow glyph_browser) (style col palette_text v)])
     @ (case desktop s of None \<Rightarrow> []
        | Some v \<Rightarrow> [icon_text (style col palette_yellow glyph_desktop) (style col palette_text v)])
     @ [divider_only '' '']
     @ (case quote s of None \<Rightarrow> [] | Some v \<Rightarrow> [text_only (style col palette_text v)])"

section \<open>Sample inputs\<close>

definition noon :: Date where
  "noon = \<lparr>getFullYear = 2024, getMonth = 4, getDate = 17, getHours = 12,
            getMinutes = 0, getSeconds = 0, getMilliseconds = 0\<rparr>"

definition morning :: Date where
  "morning = noon\<lparr>getHours := 7, getMinutes := 30\<rparr>"

definition yesterday :: Date where
  "yesterday = noon\<lparr>getDate := 16, getHours := 21\<rparr>"

definition old_file :: "Date \<Rightarrow> BunFile" where
  "old_file t = \<lparr>content = ''Old\<newline>~ X'', mtime = t\<rparr>"

definition world_with :: "BunFile option \<Rightarrow> world" where
  "world_with f = \<lparr>cache_file = f, cache_dir = (f \<noteq> None), requests = 0\<rparr>"

definition offline :: env where
  "offline = \<lparr>clock = noon, network = Rejects\<rparr>"

definition record_of :: "string \<Rightarrow> string \<Rightarrow> quote_record" where
  "record_of qt au = \<lparr>q = qt, a = au, i = [], c = [], h = []\<rparr>"

definition online :: "Response \<Rightarrow> env" where
  "online data = \<lparr>clock = noon, network = Resolves \<lparr>ok = True, json = Json data\<rparr>\<rparr>"

definition server_error :: env where
  "server_error = \<lparr>clock = noon, network = Resolves \<lparr>ok = False, json = NotJson\<rparr>\<rparr>"

definition new_years_eve :: Date where
  "new_years_eve = \<lparr>getFullYear = 2024, getMonth = 11, getDate = 31, getHours = 23,
                     getMinutes = 59, getSeconds = 59, getMilliseconds = 0\<rparr>"

definition new_year :: Date where
  "new_year = \<lparr>getFullYear = 2025, getMonth = 0, getDate = 1, getHours = 0,
                getMinutes = 0, getSeconds = 0, getMilliseconds = 0\<rparr>"

definition bare :: facts where
  "bare = \<lparr>whoami = ''user'', uname_o = ''GNU/Linux'', uname_m = ''x86_64'',
           uptime_p = ''up 2 hours'', shell = None, terminal = None, editor = None,
           browser = None, desktop = None, quote = None\<rparr>"

section \<open>The steps of \<open>fetchQuote\<close>\<close>

text \<open>
  \<open>fetchQuote\<close> either answers from the file or goes on to the request; the request
  either falls back to the old quote or stores a new one.
\<close>

lemma fetchQuote_fresh:
  assumes "cache_file w = Some f" and "sameDay (mtime f) (clock e)"
  shows "fetchQuote e w = (Inr (Some (content f)), w)"
  using assms by (simp add: fetchQuote_def)

lemma fetchQuote_stale:
  assumes "cache_file w = None \<or> (\<exists>f. cache_file w = Some f \<and> \<not> sameDay (mtime f) (clock e))"
  shows "fetchQuote e w = refresh e w"
  using assms by (auto simp: fetchQuote_def Let_def)

lemma fetchQuote_cases:
  "(\<exists>f. cache_file w = Some f \<and> sameDay (mtime f) (clock e)
        \<and> fetchQuote e w = (Inr (Some (content f)), w))
   \<or> ((cache_file w = None \<or> (\<exists>f. cache_file w = Some f \<and> \<not> sameDay (mtime f) (clock e)))
        \<and> fetchQuote e w = refresh e w)"
  by (cases "cache_file w") (auto simp: fetchQuote_def Let_def)

lemma refresh_failure:
  assumes "network e = Rejects \<or> (\<exists>r. network e = Resolves r \<and> \<not> ok r)"
  shows "refresh e w = (Inr (oldQuote w), w\<lparr>requests := Suc (requests w)\<rparr>)"
  using assms by (auto simp: refresh_def oldQuote_def Let_def)

lemma refresh_fallback:
  assumes "network e = Rejects \<or> (\<exists>r. network e = Resolves r \<and> (\<not> ok r \<or> json r = NotJson))"
  shows "fst (refresh e w) = Inr (oldQuote w)"
  using assms by (auto simp: refresh_def oldQuote_def Let_def)

lemma refresh_success:
  assumes "network e = Resolves r" and "ok r" and "json r = Json (x # xs)"
  shows "refresh e w =
           (Inr (Some (q x @ ''\<newline>~ '' @ a x)),
            \<lparr>cache_file = Some \<lparr>content = q x @ ''\<newline>~ '' @ a x, mtime = clock e\<rparr>,
             cache_dir = True, requests = Suc (requests w)\<rparr>)"
  using assms by (simp add: refresh_def store_quote_def cacheFile_write_def Let_def)

lemma refresh_requests: "requests (snd (refresh e w)) = Suc (requests w)"
  by (simp add: refresh_def store_quote_def cacheFile_write_def oldQuote_def Let_def
      split: fetch_result.splits body.splits list.splits)

lemma refresh_cache_unchanged:
  assumes "\<not> (\<exists>r x xs. network e = Resolves r \<and> ok r \<and> json r = Json (x # xs))"
  shows "cache_file (snd (refresh e w)) = cache_file w"
  using assms
  by (auto simp: refresh_def store_quote_def Let_def
      split: fetch_result.splits body.splits list.splits)

lemma refresh_not_absent:
  assumes "cache_file w = Some f"
  shows "fst (refresh e w) \<noteq> Inr None"
  using assms
  by (auto simp: refresh_def store_quote_def oldQuote_def Let_def
      split: fetch_result.splits body.splits list.splits)

lemma fetchQuote_part_000_fresh:
  assumes "cache_file w = Some f" and "sameDay (mtime f) (clock e)"
  shows "fetchQuote_part_000 e w = (Inr (Some (content f)), w)"
  using assms by (simp add: fetchQuote_part_000_def)

lemma fetchQuote_part_000_stale:
  assumes "cache_file w = None \<or> (\<exists>f. cache_file w = Some f \<and> \<not> sameDay (mtime f) (clock e))"
  shows "fetchQuote_part_000 e w = refresh_part_000 e w"
  using assms by (auto simp: fetchQuote_part_000_def Let_def)

lemma refresh_variants:
  "refresh_part_000 e w =
     (case network e of
        Rejects \<Rightarrow> (Inl FetchRejected, snd (refresh e w))
      | Resolves r \<Rightarrow>
          if \<not> ok r then (Inr None, snd (refresh e w))
          else (case json r of
                  NotJson \<Rightarrow> (Inl SyntaxError, snd (refresh e w))
                | Json d \<Rightarrow> refresh e w))"
  by (simp add: refresh_part_000_def refresh_def Let_def
      split: fetch_result.splits body.splits)

lemma next_day_differs: "next_day ymd \<noteq> ymd"
  by (cases ymd) (simp add: next_day_def)

lemma sameDay_calendar_day: "sameDay d1 d2 \<longleftrightarrow> calendar_day d1 = calendar_day d2"
  by (simp add: sameDay_def calendar_day_def)

lemma split_not_empty: "split sep p \<noteq> []"
  by (induction p) (auto split: list.splits)

lemma shell_of_absent: "shell_of v = None \<longleftrightarrow> v = None"
  by (simp add: shell_of_def at_last_def split_not_empty split: option.splits)

section \<open>Same-day reuse\<close>

text \<open>
  C1: when the cache file exists and was last modified on the current local calendar
  day, \<open>fetchQuote\<close> returns exactly the stored content and performs no network request;
  the world, request counter included, is the one it started from.
\<close>

theorem same_day_reuse:
  assumes "cache_file w = Some f" and "sameDay (mtime f) (clock e)"
  shows "fetchQuote e w = (Inr (Some (content f)), w)
       \<and> requests (snd (fetchQuote e w)) = requests w"
  using assms by (simp add: fetchQuote_def)

theorem same_day_reuse_witness:
  "cache_file (world_with (Some (old_file morning))) = Some (old_file morning)
   \<and> sameDay (mtime (old_file morning)) (clock offline)
   \<and> fetchQuote offline (world_with (Some (old_file morning)))
       = (Inr (Some ''Old\<newline>~ X''), world_with (Some (old_file morning)))"
proof -
  have c: "cache_file (world_with (Some (old_file morning))) = Some (old_file morning)"
    by (simp add: world_with_def)
  have s: "sameDay (mtime (old_file morning)) (clock offline)"
    by (simp add: sameDay_def old_file_def morning_def noon_def offline_def)
  from same_day_reuse [OF c s] c s show ?thesis
    by (simp add: old_file_def)
qed

section \<open>Refresh\<close>

text \<open>
  C2: when the cache entry is absent or was last modified on another calendar day, and the
  request resolves to an \<open>ok\<close> response whose JSON is a non-empty array with first record
  \<open>x\<close>, \<open>fetchQuote\<close> returns the quote text, a line break, \<open>~ \<close> and the author, and the
  cache file afterwards exists with exactly that text, its parent directory with it.
\<close>

theorem stale_or_absent_refresh:
  assumes "cache_file w = None \<or> (\<exists>f. cache_file w = Some f \<and> \<not> sameDay (mtime f) (clock e))"
    and "network e = Resolves r" and "ok r" and "json r = Json (x # xs)"
  shows "fst (fetchQuote e w) = Inr (Some (q x @ ''\<newline>~ '' @ a x))
       \<and> cache_file (snd (fetchQuote e w))
           = Some \<lparr>content = q x @ ''\<newline>~ '' @ a x, mtime = clock e\<rparr>
       \<and> cache_dir (snd (fetchQuote e w))"
  using fetchQuote_stale [OF assms(1)] refresh_success [OF assms(2-4)] by simp

theorem stale_or_absent_refresh_witness:
  "fst (fetchQuote (online [record_of ''Q'' ''A'']) (world_with (Some (old_file yesterday))))
     = Inr (Some ''Q\<newline>~ A'')
   \<and> cache_file (snd (fetchQuote (online [record_of ''Q'' ''A''])
        (world_with (Some (old_file yesterday)))))
       = Some \<lparr>content = ''Q\<newline>~ A'', mtime = noon\<rparr>
   \<and> fst (fetchQuote (online [record_of ''Hi'' ''Bob'']) (world_with None))
       = Inr (Some ''Hi\<newline>~ Bob'')
   \<and> cache_file (snd (fetchQuote (online [record_of ''Hi'' ''Bob'']) (world_with None)))
       = Some \<lparr>content = ''Hi\<newline>~ Bob'', mtime = noon\<rparr>
   \<and> \<not> cache_dir (world_with None)
   \<and> cache_dir (snd (fetchQuote (online [record_of ''Hi'' ''Bob'']) (world_with None)))"
proof -
  have stale: "cache_file (world_with (Some (old_file yesterday))) = None
      \<or> (\<exists>f. cache_file (world_with (Some (old_file yesterday))) = Some f
            \<and> \<not> sameDay (mtime f) (clock (online [record_of ''Q'' ''A''])))"
    by (simp add: world_with_def old_file_def yesterday_def noon_def online_def sameDay_def)
  have absent: "cache_file (world_with None) = None
      \<or> (\<exists>f. cache_file (world_with None) = Some f
            \<and> \<not> sameDay (mtime f) (clock (online [record_of ''Hi'' ''Bob''])))"
    by (simp add: world_with_def)
  have net: "network (online ds) = Resolves \<lparr>ok = True, json = Json ds\<rparr>" for ds
    by (simp add: online_def)
  have okr: "ok \<lparr>ok = True, json = Json ds\<rparr>" for ds :: Response
    by simp
  have js: "json \<lparr>ok = True, json = Json [r]\<rparr> = Json (r # [])" for r
    by simp
  from stale_or_absent_refresh [OF stale net okr js]
       stale_or_absent_refresh [OF absent net okr js]
  show ?thesis
    by (simp add: record_of_def online_def world_with_def)
qed

section \<open>Failed requests\<close>

text \<open>
  C3: when a cache entry exists that was last modified on another calendar day, and the
  request is rejected or answered with a status that is not \<open>ok\<close>, \<open>fetchQuote\<close> returns the
  entry's content as a value (no exception) and leaves the file as it was; only the request
  counter has moved.
\<close>

theorem failure_with_prior_cache:
  assumes "cache_file w = Some f" and "\<not> sameDay (mtime f) (clock e)"
    and "network e = Rejects \<or> (\<exists>r. network e = Resolves r \<and> \<not> ok r)"
  shows "fetchQuote e w = (Inr (Some (content f)), w\<lparr>requests := Suc (requests w)\<rparr>)
       \<and> cache_file (snd (fetchQuote e w)) = Some f"
proof -
  have "fetchQuote e w = refresh e w"
    using assms(1,2) by (simp add: fetchQuote_stale)
  with refresh_failure [OF assms(3)] assms(1) show ?thesis
    by (simp add: oldQuote_def)
qed

theorem failure_with_prior_cache_witness:
  "fetchQuote offline (world_with (Some (old_file yesterday)))
     = (Inr (Some ''Old\<newline>~ X''), (world_with (Some (old_file yesterday)))\<lparr>requests := 1\<rparr>)
   \<and> fetchQuote server_error (world_with (Some (old_file yesterday)))
     = (Inr (Some ''Old\<newline>~ X''), (world_with (Some (old_file yesterday)))\<lparr>requests := 1\<rparr>)
   \<and> cache_file (snd (fetchQuote offline (world_with (Some (old_file yesterday)))))
     = Some \<lparr>content = ''Old\<newline>~ X'', mtime = yesterday\<rparr>"
proof -
  have c: "cache_file (world_with (Some (old_file yesterday))) = Some (old_file yesterday)"
    by (simp add: world_with_def)
  have s1: "\<not> sameDay (mtime (old_file yesterday)) (clock offline)"
    by (simp add: sameDay_def old_file_def yesterday_def noon_def offline_def)
  have s2: "\<not> sameDay (mtime (old_file yesterday)) (clock server_error)"
    by (simp add: sameDay_def old_file_def yesterday_def noon_def server_error_def)
  have n1: "network offline = Rejects \<or> (\<exists>r. network offline = Resolves r \<and> \<not> ok r)"
    by (simp add: offline_def)
  have n2: "network server_error = Rejects
      \<or> (\<exists>r. network server_error = Resolves r \<and> \<not> ok r)"
    by (simp add: server_error_def)
  from failure_with_prior_cache [OF c s1 n1] failure_with_prior_cache [OF c s2 n2]
  show ?thesis
    by (simp add: old_file_def world_with_def)
qed

text \<open>
  C4: when no cache entry exists and the request is rejected or answered with a status that
  is not \<open>ok\<close>, \<open>fetchQuote\<close> returns \<open>undefined\<close> and creates neither the file nor its
  directory.
\<close>

theorem failure_without_cache:
  assumes "cache_file w = None"
    and "network e = Rejects \<or> (\<exists>r. network e = Resolves r \<and> \<not> ok r)"
  shows "fetchQuote e w = (Inr None, w\<lparr>requests := Suc (requests w)\<rparr>)
       \<and> cache_file (snd (fetchQuote e w)) = None
       \<and> cache_dir (snd (fetchQuote e w)) = cache_dir w"
proof -
  have "fetchQuote e w = refresh e w"
    using assms(1) by (simp add: fetchQuote_stale)
  with refresh_failure [OF assms(2)] assms(1) show ?thesis
    by (simp add: oldQuote_def)
qed

theorem failure_without_cache_witness:
  "fetchQuote offline (world_with None) = (Inr None, (world_with None)\<lparr>requests := 1\<rparr>)
   \<and> fetchQuote server_error (world_with None)
       = (Inr None, (world_with None)\<lparr>requests := 1\<rparr>)
   \<and> cache_file (snd (fetchQuote offline (world_with None))) = None"
proof -
  have c: "cache_file (world_with None) = None"
    by (simp add: world_with_def)
  have n1: "network offline = Rejects \<or> (\<exists>r. network offline = Resolves r \<and> \<not> ok r)"
    by (simp add: offline_def)
  have n2: "network server_error = Rejects
      \<or> (\<exists>r. network server_error = Resolves r \<and> \<not> ok r)"
    by (simp add: server_error_def)
  from failure_without_cache [OF c n1] failure_without_cache [OF c n2]
  show ?thesis
    by (simp add: world_with_def)
qed

text \<open>
  C5: an \<open>ok\<close> response whose JSON is the empty array is not treated as a failed request.
  Reading \<open>data[0]!.q\<close> raises a \<open>TypeError\<close> after the \<open>try\<close> block has ended, so
  \<open>fetchQuote\<close> rejects: with a stale cache entry it does not return the old content, and
  without one it does not return \<open>undefined\<close>. The file is not touched.
\<close>

theorem empty_success_response_raises:
  "fetchQuote (online []) (world_with (Some (old_file yesterday)))
     = (Inl TypeError, (world_with (Some (old_file yesterday)))\<lparr>requests := 1\<rparr>)
   \<and> fetchQuote (online []) (world_with None)
     = (Inl TypeError, (world_with None)\<lparr>requests := 1\<rparr>)
   \<and> fst (fetchQuote (online []) (world_with (Some (old_file yesterday))))
       \<noteq> Inr (Some ''Old\<newline>~ X'')
   \<and> fst (fetchQuote (online []) (world_with None)) \<noteq> Inr None"
  by (simp add: fetchQuote_def refresh_def store_quote_def online_def world_with_def
      old_file_def yesterday_def noon_def sameDay_def Let_def)

section \<open>Calendar days, not elapsed time\<close>

text \<open>
  C6: \<open>sameDay\<close> holds exactly when the two dates have the same year, month and day of the
  month. Hence an entry modified on one calendar day is stale at every time of the next
  calendar day, whatever the two times of day are (23:59:59 and one second later included):
  \<open>fetchQuote\<close> goes on to the request. And an entry modified on the current calendar day
  is fresh however many hours lie between the two times.
\<close>

theorem calendar_day_freshness:
  "(sameDay d1 d2 \<longleftrightarrow>
      getFullYear d1 = getFullYear d2 \<and> getMonth d1 = getMonth d2 \<and> getDate d1 = getDate d2)
   \<and> (cache_file w = Some f \<and> calendar_day (clock e) = next_day (calendar_day (mtime f))
        \<longrightarrow> \<not> sameDay (mtime f) (clock e)
            \<and> fetchQuote e w = refresh e w
            \<and> requests (snd (fetchQuote e w)) = Suc (requests w))
   \<and> (cache_file w = Some f \<and> calendar_day (clock e) = calendar_day (mtime f)
        \<longrightarrow> fetchQuote e w = (Inr (Some (content f)), w))"
proof -
  have one: "sameDay d1 d2 \<longleftrightarrow>
      getFullYear d1 = getFullYear d2 \<and> getMonth d1 = getMonth d2 \<and> getDate d1 = getDate d2"
    by (simp add: sameDay_def)
  have two: "\<not> sameDay (mtime f) (clock e) \<and> fetchQuote e w = refresh e w
      \<and> requests (snd (fetchQuote e w)) = Suc (requests w)"
    if c: "cache_file w = Some f"
      and n: "calendar_day (clock e) = next_day (calendar_day (mtime f))"
  proof -
    have stale: "\<not> sameDay (mtime f) (clock e)"
      using n next_day_differs [of "calendar_day (mtime f)"]
      by (simp add: sameDay_calendar_day)
    with c have "fetchQuote e w = refresh e w"
      by (simp add: fetchQuote_stale)
    with stale show ?thesis
      by (simp add: refresh_requests)
  qed
  have three: "fetchQuote e w = (Inr (Some (content f)), w)"
    if "cache_file w = Some f" and "calendar_day (clock e) = calendar_day (mtime f)"
    using that by (simp add: fetchQuote_fresh sameDay_calendar_day)
  from one two three show ?thesis
    by blast
qed

theorem calendar_day_freshness_witness:
  "calendar_day new_year = next_day (calendar_day new_years_eve)
   \<and> \<not> sameDay new_years_eve new_year
   \<and> requests (snd (fetchQuote \<lparr>clock = new_year, network = Rejects\<rparr>
        (world_with (Some (old_file new_years_eve))))) = 1
   \<and> fetchQuote \<lparr>clock = noon\<lparr>getHours := 23, getMinutes := 59, getSeconds := 59\<rparr>,
                  network = Rejects\<rparr>
        (world_with (Some (old_file (noon\<lparr>getHours := 0\<rparr>))))
       = (Inr (Some ''Old\<newline>~ X''), world_with (Some (old_file (noon\<lparr>getHours := 0\<rparr>))))"
proof -
  let ?late = "noon\<lparr>getHours := 23, getMinutes := 59, getSeconds := 59\<rparr>"
  let ?early = "noon\<lparr>getHours := 0\<rparr>"
  have n: "calendar_day (clock \<lparr>clock = new_year, network = Rejects\<rparr>)
      = next_day (calendar_day (mtime (old_file new_years_eve)))"
    by (simp add: calendar_day_def next_day_def days_in_month_def new_year_def
        new_years_eve_def old_file_def)
  have c: "cache_file (world_with (Some (old_file t))) = Some (old_file t)" for t
    by (simp add: world_with_def)
  have k: "calendar_day (clock \<lparr>clock = ?late, network = Rejects\<rparr>)
      = calendar_day (mtime (old_file ?early))"
    by (simp add: calendar_day_def old_file_def)
  from calendar_day_freshness
         [of new_years_eve new_year "world_with (Some (old_file new_years_eve))"
            "old_file new_years_eve" "\<lparr>clock = new_year, network = Rejects\<rparr>"] n c
  have a1: "\<not> sameDay (mtime (old_file new_years_eve))
               (clock \<lparr>clock = new_year, network = Rejects\<rparr>)"
    and a2: "requests (snd (fetchQuote \<lparr>clock = new_year, network = Rejects\<rparr>
        (world_with (Some (old_file new_years_eve)))))
      = Suc (requests (world_with (Some (old_file new_years_eve))))"
    by blast+
  from calendar_day_freshness
         [of new_years_eve new_year "world_with (Some (old_file ?early))"
            "old_file ?early" "\<lparr>clock = ?late, network = Rejects\<rparr>"] k c
  have a3: "fetchQuote \<lparr>clock = ?late, network = Rejects\<rparr>
        (world_with (Some (old_file ?early)))
      = (Inr (Some (content (old_file ?early))), world_with (Some (old_file ?early)))"
    by blast
  have "calendar_day new_year = next_day (calendar_day new_years_eve)"
    using n by (simp add: old_file_def)
  moreover have "\<not> sameDay new_years_eve new_year"
    using a1 by (simp add: old_file_def)
  moreover have "requests (snd (fetchQuote \<lparr>clock = new_year, network = Rejects\<rparr>
        (world_with (Some (old_file new_years_eve))))) = 1"
    using a2 by (simp add: world_with_def)
  moreover have "content (old_file ?early) = ''Old\<newline>~ X''"
    by (simp add: old_file_def)
  ultimately show ?thesis
    using a3 by simp
qed

section \<open>Writes to the cache file\<close>

text \<open>
  C7: after \<open>fetchQuote\<close> the cache file is either what it was, or the request was made
  (entry absent or stale), resolved \<open>ok\<close> with a non-empty array, and the file holds the
  newly built text alone, which is also the returned value: nothing of the old content
  remains, so the write is an overwrite and never an append. An existing file is never
  deleted. Whenever the refresh does not succeed (the same-day path and every failure
  path) the file is unchanged.
\<close>

theorem cache_written_only_on_refresh:
  "(cache_file (snd (fetchQuote e w)) = cache_file w
      \<or> (\<exists>r x xs.
            (cache_file w = None
               \<or> (\<exists>f. cache_file w = Some f \<and> \<not> sameDay (mtime f) (clock e)))
            \<and> network e = Resolves r \<and> ok r \<and> json r = Json (x # xs)
            \<and> fst (fetchQuote e w) = Inr (Some (q x @ ''\<newline>~ '' @ a x))
            \<and> cache_file (snd (fetchQuote e w))
                = Some \<lparr>content = q x @ ''\<newline>~ '' @ a x, mtime = clock e\<rparr>))
   \<and> (cache_file w \<noteq> None \<longrightarrow> cache_file (snd (fetchQuote e w)) \<noteq> None)
   \<and> (\<not> ((cache_file w = None
             \<or> (\<exists>f. cache_file w = Some f \<and> \<not> sameDay (mtime f) (clock e)))
           \<and> (\<exists>r x xs. network e = Resolves r \<and> ok r \<and> json r = Json (x # xs)))
        \<longrightarrow> cache_file (snd (fetchQuote e w)) = cache_file w)"
proof -
  consider
    (hit) f where "cache_file w = Some f" "sameDay (mtime f) (clock e)"
      "fetchQuote e w = (Inr (Some (content f)), w)"
  | (miss) "cache_file w = None
        \<or> (\<exists>f. cache_file w = Some f \<and> \<not> sameDay (mtime f) (clock e))"
      "fetchQuote e w = refresh e w"
    using fetchQuote_cases [of w e] by blast
  then show ?thesis
  proof cases
    case hit
    then show ?thesis by simp
  next
    case miss
    show ?thesis
    proof (cases "\<exists>r x xs. network e = Resolves r \<and> ok r \<and> json r = Json (x # xs)")
      case True
      then obtain r x xs where n: "network e = Resolves r" "ok r" "json r = Json (x # xs)"
        by blast
      from refresh_success [OF n, of w] miss n show ?thesis
        by auto
    next
      case False
      from refresh_cache_unchanged [OF False, of w] miss show ?thesis
        by simp
    qed
  qed
qed

theorem cache_written_only_on_refresh_witness:
  "cache_file (snd (fetchQuote offline (world_with (Some (old_file yesterday)))))
     = Some (old_file yesterday)
   \<and> cache_file (snd (fetchQuote (online [record_of ''Q'' ''A''])
        (world_with (Some (old_file yesterday)))))
       = Some \<lparr>content = ''Q\<newline>~ A'', mtime = noon\<rparr>"
proof -
  have c: "cache_file (world_with (Some (old_file yesterday))) = Some (old_file yesterday)"
    by (simp add: world_with_def)
  have n: "\<not> ((cache_file (world_with (Some (old_file yesterday))) = None
             \<or> (\<exists>f. cache_file (world_with (Some (old_file yesterday))) = Some f
                   \<and> \<not> sameDay (mtime f) (clock offline)))
           \<and> (\<exists>r x xs. network offline = Resolves r \<and> ok r \<and> json r = Json (x # xs)))"
    by (simp add: offline_def)
  have o: "network (online [record_of ''Q'' ''A''])
      = Resolves \<lparr>ok = True, json = Json [record_of ''Q'' ''A'']\<rparr>"
    by (simp add: online_def)
  have u: "cache_file (snd (fetchQuote (online [record_of ''Q'' ''A''])
        (world_with (Some (old_file yesterday))))) \<noteq> cache_file (world_with (Some (old_file yesterday)))"
    by (simp add: fetchQuote_def refresh_def store_quote_def cacheFile_write_def online_def
        world_with_def old_file_def yesterday_def noon_def sameDay_def record_of_def Let_def)
  from cache_written_only_on_refresh [of offline "world_with (Some (old_file yesterday))"]
       cache_written_only_on_refresh
         [of "online [record_of ''Q'' ''A'']" "world_with (Some (old_file yesterday))"]
       c n o u
  show ?thesis
    by (auto simp: record_of_def online_def)
qed

section \<open>Optional lines of the dashboard\<close>

text \<open>
  C8: the dashboard has its nine fixed lines and one more line for each of \<open>shell\<close>,
  \<open>term\<close>, \<open>editor\<close>, \<open>browser\<close>, \<open>desktop\<close> and \<open>quote\<close> that is present; \<open>shell\<close> is
  absent exactly when the variable \<open>SHELL\<close> is. The dashboard with a value present is the
  dashboard with that value absent plus the value's one line, inserted after the fixed
  lines and the lines of the present values before it: an absent value leaves no line
  behind, empty or not. The line of a present quote is the last one and has a text and
  neither icon nor divider.
\<close>

theorem absent_values_omitted:
  "length (dashboard col s)
     = 9 + length (filter (\<lambda>v. v \<noteq> None)
                     [shell s, terminal s, editor s, browser s, desktop s, quote s])
   \<and> (shell_of v = None \<longleftrightarrow> v = None)
   \<and> dashboard col (s\<lparr>shell := Some t\<rparr>)
       = take 8 (dashboard col (s\<lparr>shell := None\<rparr>))
         @ [icon_text (style col palette_yellow glyph_shell) (style col palette_text t)]
         @ drop 8 (dashboard col (s\<lparr>shell := None\<rparr>))
   \<and> dashboard col (s\<lparr>terminal := Some t\<rparr>)
       = take (8 + length (filter (\<lambda>v. v \<noteq> None) [shell s]))
           (dashboard col (s\<lparr>terminal := None\<rparr>))
         @ [icon_text (style col palette_yellow glyph_term) (style col palette_text t)]
         @ drop (8 + length (filter (\<lambda>v. v \<noteq> None) [shell s]))
             (dashboard col (s\<lparr>terminal := None\<rparr>))
   \<and> dashboard col (s\<lparr>editor := Some t\<rparr>)
       = take (8 + length (filter (\<lambda>v. v \<noteq> None) [shell s, terminal s]))
           (dashboard col (s\<lparr>editor := None\<rparr>))
         @ [icon_text (style col palette_yellow glyph_editor) (style col palette_text t)]
         @ drop (8 + length (filter (\<lambda>v. v \<noteq> None) [shell s, terminal s]))
             (dashboard col (s\<lparr>editor := None\<rparr>))
   \<and> dashboard col (s\<lparr>browser := Some t\<rparr>)
       = take (8 + length (filter (\<lambda>v. v \<noteq> None) [shell s, terminal s, editor s]))
           (dashboard col (s\<lparr>browser := None\<rparr>))
         @ [icon_text (style col palette_yellow glyph_browser) (style col palette_text t)]
         @ drop (8 + length (filter (\<lambda>v. v \<noteq> None) [shell s, terminal s, editor s]))
             (dashboard col (s\<lparr>browser := None\<rparr>))
   \<and> dashboard col (s\<lparr>desktop := Some t\<rparr>)
       = take (8 + length (filter (\<lambda>v. v \<noteq> None)
                            [shell s, terminal s, editor s, browser s]))
           (dashboard col (s\<lparr>desktop := None\<rparr>))
         @ [icon_text (style col palette_yellow glyph_desktop) (style col palette_text t)]
         @ drop (8 + length (filter (\<lambda>v. v \<noteq> None)
                              [shell s, terminal s, editor s, browser s]))
             (dashboard col (s\<lparr>desktop := None\<rparr>))
   \<and> dashboard col (s\<lparr>quote := Some t\<rparr>)
       = dashboard col (s\<lparr>quote := None\<rparr>) @ [text_only (style col palette_text t)]
   \<and> icon (last (dashboard col (s\<lparr>quote := Some t\<rparr>))) = None
   \<and> line_text (last (dashboard col (s\<lparr>quote := Some t\<rparr>))) = Some (style col palette_text t)
   \<and> divider (last (dashboard col (s\<lparr>quote := Some t\<rparr>))) = None"
proof -
  have len: "length (dashboard col s)
     = 9 + length (filter (\<lambda>v. v \<noteq> None)
                     [shell s, terminal s, editor s, browser s, desktop s, quote s])"
    by (simp add: dashboard_def split: option.splits)
  have sh: "dashboard col (s\<lparr>shell := Some t\<rparr>)
       = take 8 (dashboard col (s\<lparr>shell := None\<rparr>))
         @ [icon_text (style col palette_yellow glyph_shell) (style col palette_text t)]
         @ drop 8 (dashboard col (s\<lparr>shell := None\<rparr>))"
    by (simp add: dashboard_def)
  have te: "dashboard col (s\<lparr>terminal := Some t\<rparr>)
       = take (8 + length (filter (\<lambda>v. v \<noteq> None) [shell s]))
           (dashboard col (s\<lparr>terminal := None\<rparr>))
         @ [icon_text (style col palette_yellow glyph_term) (style col palette_text t)]
         @ drop (8 + length (filter (\<lambda>v. v \<noteq> None) [shell s]))
             (dashboard col (s\<lparr>terminal := None\<rparr>))"
    by (cases "shell s") (simp_all add: dashboard_def)
  have ed: "dashboard col (s\<lparr>editor := Some t\<rparr>)
       = take (8 + length (filter (\<lambda>v. v \<noteq> None) [shell s, terminal s]))
           (dashboard col (s\<lparr>editor := None\<rparr>))
         @ [icon_text (style col palette_yellow glyph_editor) (style col palette_text t)]
         @ drop (8 + length (filter (\<lambda>v. v \<noteq> None) [shell s, terminal s]))
             (dashboard col (s\<lparr>editor := None\<rparr>))"
    by (cases "shell s"; cases "terminal s") (simp_all add: dashboard_def)
  have br: "dashboard col (s\<lparr>browser := Some t\<rparr>)
       = take (8 + length (filter (\<lambda>v. v \<noteq> None) [shell s, terminal s, editor s]))
           (dashboard col (s\<lparr>browser := None\<rparr>))
         @ [icon_text (style col palette_yellow glyph_browser) (style col palette_text t)]
         @ drop (8 + length (filter (\<lambda>v. v \<noteq> None) [shell s, terminal s, editor s]))
             (dashboard col (s\<lparr>browser := None\<rparr>))"
    by (cases "shell s"; cases "terminal s"; cases "editor s") (simp_all add: dashboard_def)
  have de: "dashboard col (s\<lparr>desktop := Some t\<rparr>)
       = take (8 + length (filter (\<lambda>v. v \<noteq> None)
                            [shell s, terminal s, editor s, browser s]))
           (dashboard col (s\<lparr>desktop := None\<rparr>))
         @ [icon_text (style col palette_yellow glyph_desktop) (style col palette_text t)]
         @ drop (8 + length (filter (\<lambda>v. v \<noteq> None)
                              [shell s, terminal s, editor s, browser s]))
             (dashboard col (s\<lparr>desktop := None\<rparr>))"
    by (cases "shell s"; cases "terminal s"; cases "editor s"; cases "browser s")
      (simp_all add: dashboard_def)
  have qu: "dashboard col (s\<lparr>quote := Some t\<rparr>)
       = dashboard col (s\<lparr>quote := None\<rparr>) @ [text_only (style col palette_text t)]"
    by (simp add: dashboard_def)
  have la: "last (dashboard col (s\<lparr>quote := Some t\<rparr>)) = text_only (style col palette_text t)"
    by (simp add: qu)
  show ?thesis
    using len sh te ed br de qu
    by (simp add: la text_only_def shell_of_absent)
qed

theorem absent_values_omitted_witness:
  "length (dashboard (\<lambda>_. None) bare) = 9
   \<and> length (dashboard (\<lambda>_. None) (bare\<lparr>quote := Some ''Q''\<rparr>)) = 10
   \<and> last (dashboard (\<lambda>_. None) (bare\<lparr>quote := Some ''Q''\<rparr>))
       = \<lparr>icon = None, line_text = Some ''nullQ'', divider = None\<rparr>"
proof -
  have "quote bare = None" and "shell bare = None" and "terminal bare = None"
    and "editor bare = None" and "browser bare = None" and "desktop bare = None"
    by (simp_all add: bare_def)
  with absent_values_omitted [of "\<lambda>_. None" bare None "''Q''"]
       absent_values_omitted [of "\<lambda>_. None" "bare\<lparr>quote := Some ''Q''\<rparr>" None "''Q''"]
  show ?thesis
    by (simp add: style_def text_only_def)
qed

section \<open>The two variants\<close>

text \<open>
  C9, as stated, fails: with a stale cache entry and a rejected request the variant of
  \<open>part_000\<close> does not return \<open>undefined\<close>; the rejection leaves \<open>fetchQuote\<close>, while
  the variant of \<open>config.ts\<close> returns the old content.
\<close>

theorem variants_counterexample:
  "cache_file (world_with (Some (old_file yesterday))) = Some (old_file yesterday)
   \<and> \<not> sameDay (mtime (old_file yesterday)) (clock offline)
   \<and> network offline = Rejects
   \<and> fst (fetchQuote offline (world_with (Some (old_file yesterday))))
       = Inr (Some ''Old\<newline>~ X'')
   \<and> fst (fetchQuote_part_000 offline (world_with (Some (old_file yesterday))))
       = Inl FetchRejected
   \<and> fst (fetchQuote_part_000 offline (world_with (Some (old_file yesterday)))) \<noteq> Inr None"
  by (simp add: fetchQuote_def refresh_def fetchQuote_part_000_def refresh_part_000_def
      oldQuote_def offline_def world_with_def old_file_def yesterday_def noon_def
      sameDay_def Let_def)

text \<open>
  C9, amended: the two variants give the same outcome whenever the cache is fresh or the
  request resolves \<open>ok\<close> with a JSON body. With a stale cache entry and a status that is
  not \<open>ok\<close>, \<open>part_000\<close> returns \<open>undefined\<close> and \<open>config.ts\<close> the old content; with a stale
  cache entry and a rejected request, \<open>part_000\<close> rejects and \<open>config.ts\<close> returns the old
  content; the worlds they leave are the same. The outcomes differ exactly when the cache
  is not fresh and the request is rejected, or resolves \<open>ok\<close> with a body that is not JSON,
  or resolves with a status that is not \<open>ok\<close> while a cache entry exists.
\<close>

theorem variants_compared:
  "((\<exists>f. cache_file w = Some f \<and> sameDay (mtime f) (clock e))
      \<or> (\<exists>r d. network e = Resolves r \<and> ok r \<and> json r = Json d)
     \<longrightarrow> fetchQuote_part_000 e w = fetchQuote e w)
   \<and> (cache_file w = Some f \<and> \<not> sameDay (mtime f) (clock e)
        \<and> (\<exists>r. network e = Resolves r \<and> \<not> ok r)
     \<longrightarrow> fst (fetchQuote_part_000 e w) = Inr None
         \<and> fst (fetchQuote e w) = Inr (Some (content f))
         \<and> snd (fetchQuote_part_000 e w) = snd (fetchQuote e w))
   \<and> (cache_file w = Some f \<and> \<not> sameDay (mtime f) (clock e) \<and> network e = Rejects
     \<longrightarrow> fst (fetchQuote_part_000 e w) = Inl FetchRejected
         \<and> fst (fetchQuote e w) = Inr (Some (content f))
         \<and> snd (fetchQuote_part_000 e w) = snd (fetchQuote e w))
   \<and> (fetchQuote_part_000 e w \<noteq> fetchQuote e w \<longleftrightarrow>
        \<not> (\<exists>f. cache_file w = Some f \<and> sameDay (mtime f) (clock e))
        \<and> (network e = Rejects
             \<or> (\<exists>r. network e = Resolves r \<and> ok r \<and> json r = NotJson)
             \<or> (\<exists>r. network e = Resolves r \<and> \<not> ok r \<and> cache_file w \<noteq> None)))"
proof -
  consider
    (hit) g where "cache_file w = Some g" "sameDay (mtime g) (clock e)"
  | (miss) "cache_file w = None
        \<or> (\<exists>f. cache_file w = Some f \<and> \<not> sameDay (mtime f) (clock e))"
    by (cases "cache_file w") auto
  then show ?thesis
  proof cases
    case hit
    from fetchQuote_fresh [OF hit] fetchQuote_part_000_fresh [OF hit] hit show ?thesis
      by auto
  next
    case miss
    have nofresh: "\<not> (\<exists>f. cache_file w = Some f \<and> sameDay (mtime f) (clock e))"
      using miss by auto
    have p: "fetchQuote_part_000 e w = refresh_part_000 e w"
      using miss by (rule fetchQuote_part_000_stale)
    have c: "fetchQuote e w = refresh e w"
      using miss by (rule fetchQuote_stale)
    show ?thesis
    proof (cases "network e")
      case Rejects
      then have "fst (refresh e w) = Inr (oldQuote w)"
        by (simp add: refresh_fallback)
      with Rejects p c nofresh show ?thesis
        by (auto simp: refresh_variants oldQuote_def prod_eq_iff)
    next
      case (Resolves r)
      show ?thesis
      proof (cases "ok r")
        case False
        with Resolves have "fst (refresh e w) = Inr (oldQuote w)"
          by (simp add: refresh_fallback)
        with Resolves False p c nofresh show ?thesis
          by (auto simp: refresh_variants oldQuote_def prod_eq_iff split: option.splits)
      next
        case True
        show ?thesis
        proof (cases "json r")
          case NotJson
          with Resolves have "fst (refresh e w) = Inr (oldQuote w)"
            by (simp add: refresh_fallback)
          with Resolves True NotJson p c nofresh show ?thesis
            by (auto simp: refresh_variants prod_eq_iff)
        next
          case (Json d)
          with Resolves True p c nofresh show ?thesis
            by (auto simp: refresh_variants)
        qed
      qed
    qed
  qed
qed

theorem variants_compared_witness:
  "fetchQuote_part_000 (online [record_of ''Q'' ''A'']) (world_with None)
     = fetchQuote (online [record_of ''Q'' ''A'']) (world_with None)
   \<and> fst (fetchQuote_part_000 server_error (world_with (Some (old_file yesterday)))) = Inr None
   \<and> fst (fetchQuote server_error (world_with (Some (old_file yesterday))))
       = Inr (Some ''Old\<newline>~ X'')
   \<and> fst (fetchQuote_part_000 offline (world_with (Some (old_file yesterday))))
       = Inl FetchRejected"
proof -
  have c: "cache_file (world_with (Some (old_file yesterday))) = Some (old_file yesterday)"
    by (simp add: world_with_def)
  have s1: "\<not> sameDay (mtime (old_file yesterday)) (clock offline)"
    by (simp add: sameDay_def old_file_def yesterday_def noon_def offline_def)
  have s2: "\<not> sameDay (mtime (old_file yesterday)) (clock server_error)"
    by (simp add: sameDay_def old_file_def yesterday_def noon_def server_error_def)
  have n1: "network offline = Rejects"
    by (simp add: offline_def)
  have n2: "\<exists>r. network server_error = Resolves r \<and> \<not> ok r"
    by (simp add: server_error_def)
  have n3: "\<exists>r d. network (online [record_of ''Q'' ''A'']) = Resolves r \<and> ok r \<and> json r = Json d"
    by (simp add: online_def)
  from variants_compared [of "world_with None" "online [record_of ''Q'' ''A'']"] n3
  have "fetchQuote_part_000 (online [record_of ''Q'' ''A'']) (world_with None)
      = fetchQuote (online [record_of ''Q'' ''A'']) (world_with None)"
    by blast
  moreover
  from variants_compared
    [of "world_with (Some (old_file yesterday))" server_error "old_file yesterday"] c s2 n2
  have "fst (fetchQuote_part_000 server_error (world_with (Some (old_file yesterday)))) = Inr None
      \<and> fst (fetchQuote server_error (world_with (Some (old_file yesterday))))
          = Inr (Some ''Old\<newline>~ X'')"
    by (simp add: old_file_def)
  moreover
  from variants_compared
    [of "world_with (Some (old_file yesterday))" offline "old_file yesterday"] c s1 n1
  have "fst (fetchQuote_part_000 offline (world_with (Some (old_file yesterday))))
      = Inl FetchRejected"
    by simp
  ultimately show ?thesis
    by simp
qed

section \<open>A cache entry always yields a quote\<close>

text \<open>
  C10: in the variant of \<open>config.ts\<close>, when a cache entry exists \<open>fetchQuote\<close> never
  returns \<open>undefined\<close>; on the same-day path, after a rejected request, after a status
  that is not \<open>ok\<close> and after a successful refresh it returns a string.
\<close>

theorem cache_entry_never_absent:
  assumes "cache_file w = Some f"
  shows "fst (fetchQuote e w) \<noteq> Inr None
       \<and> (sameDay (mtime f) (clock e) \<or> network e = Rejects
            \<or> (\<exists>r. network e = Resolves r \<and> \<not> ok r)
            \<or> (\<exists>r x xs. network e = Resolves r \<and> ok r \<and> json r = Json (x # xs))
          \<longrightarrow> (\<exists>t. fst (fetchQuote e w) = Inr (Some t)))"
proof (cases "sameDay (mtime f) (clock e)")
  case True
  with assms show ?thesis
    by (simp add: fetchQuote_def)
next
  case False
  with assms have eq: "fetchQuote e w = refresh e w"
    by (simp add: fetchQuote_stale)
  have "fst (refresh e w) \<noteq> Inr None"
    using assms by (rule refresh_not_absent)
  moreover have "\<exists>t. fst (refresh e w) = Inr (Some t)"
    if "network e = Rejects \<or> (\<exists>r. network e = Resolves r \<and> \<not> ok r)"
    using refresh_failure [OF that] assms by (simp add: oldQuote_def)
  moreover have "\<exists>t. fst (refresh e w) = Inr (Some t)"
    if "\<exists>r x xs. network e = Resolves r \<and> ok r \<and> json r = Json (x # xs)"
    using that refresh_success by fastforce
  ultimately show ?thesis
    using False eq by auto
qed

theorem cache_entry_never_absent_witness:
  "fst (fetchQuote offline (world_with (Some (old_file yesterday)))) \<noteq> Inr None
   \<and> (\<exists>t. fst (fetchQuote offline (world_with (Some (old_file yesterday)))) = Inr (Some t))"
proof -
  have c: "cache_file (world_with (Some (old_file yesterday))) = Some (old_file yesterday)"
    by (simp add: world_with_def)
  have n: "network offline = Rejects"
    by (simp add: offline_def)
  from cache_entry_never_absent [OF c, of offline] n show ?thesis
    by simp
qed

end
